theory Spec2Isabelle
  imports Complex_Main
begin

section \<open>Data model\<close>

text \<open>
  The editor stores coordinates and sizes as JavaScript numbers. They are modelled as
  reals: every statement below is about comparisons, sums and exact quotients, and the
  concrete inputs used are small integers, on which the arithmetic of the program is
  exact. Not-a-number, infinities and rounding are outside the model.
\<close>

datatype Point = Point (pt_x: real) (pt_y: real)

datatype Rect = Rect (r_x: real) (r_y: real) (r_width: real) (r_height: real)

datatype Tool = Select | Pan | Draw | Erase | Rectangle | Circle | Triangle

datatype Action = ActionNone | Drawing | Moving | Resizing

text \<open>
  Modelled from the spec: the module \<open>types\<close> that declares \<open>Element\<close> is not among
  the sources; the three variants and their fields are those of section 3 of the
  specification, with the field lists the object literals of \<open>createElement\<close>,
  \<open>handleAddImageElement\<close> and \<open>handleGenerateArt\<close> write. The fields shared by the
  variants (\<open>id\<close>, \<open>x\<close>, \<open>y\<close>; \<open>width\<close> and \<open>height\<close> for images and shapes) are
  shared selectors, as property access on the union is in the source.
\<close>

datatype Element =
    ImageElement (el_id: string) (el_x: real) (el_y: real) (el_width: real) (el_height: real)
      (href: string) (mimeType: string)
  | ShapeElement (el_id: string) (shapeType: Tool) (el_x: real) (el_y: real)
      (el_width: real) (el_height: real)
      (strokeColor: string) (strokeWidth: real) (fillColor: string)
  | PathElement (el_id: string) (points: "Point list")
      (strokeColor: string) (strokeWidth: real) (el_x: real) (el_y: real)

fun is_path :: "Element \<Rightarrow> bool" where
  "is_path (PathElement _ _ _ _ _ _) = True"
| "is_path _ = False"

fun is_shape :: "Element \<Rightarrow> bool" where
  "is_shape (ShapeElement _ _ _ _ _ _ _ _ _) = True"
| "is_shape _ = False"

fun is_image :: "Element \<Rightarrow> bool" where
  "is_image (ImageElement _ _ _ _ _ _ _) = True"
| "is_image _ = False"

text \<open>Object spreads \<open>{...el, field: value}\<close>, one function for each set of fields.\<close>

fun with_id :: "string \<Rightarrow> Element \<Rightarrow> Element" where
  "with_id i (ImageElement _ x y w h hr mt) = ImageElement i x y w h hr mt"
| "with_id i (ShapeElement _ st x y w h sc sw fc) = ShapeElement i st x y w h sc sw fc"
| "with_id i (PathElement _ ps sc sw x y) = PathElement i ps sc sw x y"

fun with_xy :: "real \<Rightarrow> real \<Rightarrow> Element \<Rightarrow> Element" where
  "with_xy nx ny (ImageElement i _ _ w h hr mt) = ImageElement i nx ny w h hr mt"
| "with_xy nx ny (ShapeElement i st _ _ w h sc sw fc) = ShapeElement i st nx ny w h sc sw fc"
| "with_xy nx ny (PathElement i ps sc sw _ _) = PathElement i ps sc sw nx ny"

text \<open>
  \<open>{...el, x, y, width, height}\<close>. On a path the spread would add two properties
  that the path type does not have; the model keeps the path's own fields only.
\<close>

fun with_rect :: "real \<Rightarrow> real \<Rightarrow> real \<Rightarrow> real \<Rightarrow> Element \<Rightarrow> Element" where
  "with_rect nx ny nw nh (ImageElement i _ _ _ _ hr mt) = ImageElement i nx ny nw nh hr mt"
| "with_rect nx ny nw nh (ShapeElement i st _ _ _ _ sc sw fc) =
     ShapeElement i st nx ny nw nh sc sw fc"
| "with_rect nx ny nw nh (PathElement i ps sc sw _ _) = PathElement i ps sc sw nx ny"

fun with_points :: "Point list \<Rightarrow> Element \<Rightarrow> Element" where
  "with_points ps (PathElement i _ sc sw x y) = PathElement i ps sc sw x y"
| "with_points ps e = e"

section \<open>History stack\<close>

text \<open>
  The three pieces of React state the history handlers read and write. \<open>historyIndex\<close>
  starts at 0 and is decremented only under the guard \<open>historyIndex > 0\<close>, so it is a
  natural number.
\<close>

record Doc =
  history :: "Element list list"
  historyIndex :: nat
  elements :: "Element list"

definition initialDoc :: Doc where
  "initialDoc = \<lparr> history = [[]], historyIndex = 0, elements = [] \<rparr>"

text \<open>\<open>commitAction\<close>: \<open>history.slice(0, historyIndex + 1)\<close>, \<open>push\<close>, then the two setters.\<close>

definition commitAction :: "Element list \<Rightarrow> 'a Doc_scheme \<Rightarrow> 'a Doc_scheme" where
  "commitAction newElements s =
     (let newHistory = take (historyIndex s + 1) (history s) @ [newElements]
      in s\<lparr> history := newHistory, historyIndex := length newHistory - 1 \<rparr>)"

text \<open>
  \<open>handleUndo\<close> and \<open>handleRedo\<close>. In \<open>handleRedo\<close> the guard puts \<open>newIndex\<close> inside
  the array; in \<open>handleUndo\<close> the read \<open>history[newIndex]\<close> is inside the array whenever
  \<open>historyIndex < history.length\<close>, which \<open>doc_inv\<close> below records and commits, undos
  and redos keep.
\<close>

definition handleUndo :: "'a Doc_scheme \<Rightarrow> 'a Doc_scheme" where
  "handleUndo s =
     (if historyIndex s > 0
      then (let newIndex = historyIndex s - 1
            in s\<lparr> historyIndex := newIndex, elements := history s ! newIndex \<rparr>)
      else s)"

definition handleRedo :: "'a Doc_scheme \<Rightarrow> 'a Doc_scheme" where
  "handleRedo s =
     (if historyIndex s < length (history s) - 1
      then (let newIndex = historyIndex s + 1
            in s\<lparr> historyIndex := newIndex, elements := history s ! newIndex \<rparr>)
      else s)"

text \<open>The toolbar's \<open>canRedo\<close> property: \<open>historyIndex < history.length - 1\<close>.\<close>

definition canRedo :: "'a Doc_scheme \<Rightarrow> bool" where
  "canRedo s = (historyIndex s < length (history s) - 1)"

text \<open>
  A commit as every command performs it: \<open>setElements(newElements)\<close> followed by
  \<open>commitAction(newElements)\<close> (\<open>handleClear\<close>, \<open>handleLoad\<close>, \<open>handlePaste\<close>,
  \<open>handleDelete\<close>, \<dots>).
\<close>

definition setAndCommit :: "'a Doc_scheme \<Rightarrow> Element list \<Rightarrow> 'a Doc_scheme" where
  "setAndCommit s newElements = commitAction newElements (s\<lparr> elements := newElements \<rparr>)"

definition doc_inv :: "'a Doc_scheme \<Rightarrow> bool" where
  "doc_inv s = (historyIndex s < length (history s) \<and> elements s = history s ! historyIndex s)"

section \<open>Geometry and hit-testing\<close>

text \<open>
  Both \<open>getElementBounds\<close> and \<open>getElementAtPosition\<close> run the same loop over the
  points of a path: four accumulators start at the first point and take the minimum
  and maximum with every point. \<open>extentStep\<close> is the loop body, \<open>pointsExtent\<close> the
  loop; the result is \<open>(minX, maxX, minY, maxY)\<close>. It is called on non-empty lists only,
  so \<open>points[0]\<close> is a point of the path.
\<close>

definition extentStep :: "real \<times> real \<times> real \<times> real \<Rightarrow> Point \<Rightarrow> real \<times> real \<times> real \<times> real" where
  "extentStep acc p =
     (case acc of (minX, maxX, minY, maxY) \<Rightarrow>
        (min minX (pt_x p), max maxX (pt_x p), min minY (pt_y p), max maxY (pt_y p)))"

definition pointsExtent :: "Point list \<Rightarrow> real \<times> real \<times> real \<times> real" where
  "pointsExtent ps =
     foldl extentStep (pt_x (hd ps), pt_x (hd ps), pt_y (hd ps), pt_y (hd ps)) ps"

fun getElementBounds :: "Element \<Rightarrow> Rect" where
  "getElementBounds (PathElement i ps sc sw x y) =
     (if length ps = 0 then Rect 0 0 0 0
      else (case pointsExtent ps of (minX, maxX, minY, maxY) \<Rightarrow>
              Rect minX minY (maxX - minX) (maxY - minY)))"
| "getElementBounds e = Rect (el_x e) (el_y e) (el_width e) (el_height e)"

text \<open>The test the loop of \<open>getElementAtPosition\<close> makes on one element.\<close>

fun hitElement :: "real \<Rightarrow> real \<Rightarrow> Element \<Rightarrow> bool" where
  "hitElement x y (PathElement i ps sc sw ex ey) =
     (if length ps < 2 then False
      else (case pointsExtent ps of (minX, maxX, minY, maxY) \<Rightarrow>
              x \<ge> minX \<and> x \<le> maxX \<and> y \<ge> minY \<and> y \<le> maxY))"
| "hitElement x y e =
     (x \<ge> el_x e \<and> x \<le> el_x e + el_width e \<and> y \<ge> el_y e \<and> y \<le> el_y e + el_height e)"

text \<open>
  \<open>for (let i = elements.length - 1; i >= 0; i--)\<close>: \<open>scanDown x y els n\<close> is the loop
  with \<open>n\<close> indices still to visit, the next one being \<open>n - 1\<close>.
\<close>

fun scanDown :: "real \<Rightarrow> real \<Rightarrow> Element list \<Rightarrow> nat \<Rightarrow> Element option" where
  "scanDown x y els 0 = None"
| "scanDown x y els (Suc i) =
     (if hitElement x y (els ! i) then Some (els ! i) else scanDown x y els i)"

definition getElementAtPosition :: "real \<Rightarrow> real \<Rightarrow> Element list \<Rightarrow> Element option" where
  "getElementAtPosition x y els = scanDown x y els (length els)"

text \<open>
  \<open>generateId\<close>: the text \<open>id_\<close>, the clock reading in decimal, an underscore, and
  nine characters of the random number written in base 36, taken after its first two
  characters (\<open>substr(2, 9)\<close>). The reading of \<open>Date.now()\<close>, a count of milliseconds,
  and the text \<open>Math.random().toString(36)\<close> are inputs of the model. \<open>decimal\<close> is the
  conversion of the count to text that the template string performs.
\<close>

definition digits10 :: string where
  "digits10 = ''0123456789''"

fun decimal :: "nat \<Rightarrow> string" where
  "decimal n =
     (if n < 10 then [digits10 ! n] else decimal (n div 10) @ [digits10 ! (n mod 10)])"

declare decimal.simps [simp del]

definition generateId :: "nat \<Rightarrow> string \<Rightarrow> string" where
  "generateId now random36 = ''id_'' @ decimal now @ ''_'' @ take 9 (drop 2 random36)"

text \<open>The number a string of decimal digits stands for, to read a clock value back.\<close>

definition digitsValue :: "string \<Rightarrow> nat" where
  "digitsValue ds = foldl (\<lambda>a c. 10 * a + (of_char c - 48)) 0 ds"

text \<open>
  \<open>createElement\<close>. It calls \<open>generateId\<close> first; the identifier returned is the first
  argument here.
\<close>

definition createElement :: "string \<Rightarrow> Tool \<Rightarrow> real \<Rightarrow> real \<Rightarrow> Element option" where
  "createElement newId tool x y =
     (if tool = Rectangle \<or> tool = Circle \<or> tool = Triangle
      then Some (ShapeElement newId tool x y 0 0 ''#000000'' 2 ''none'')
      else if tool = Draw
      then Some (PathElement newId [Point x y] ''#000000'' 5 0 0)
      else None)"

text \<open>
  \<open>isElementInSelectionBox\<close>. \<open>element.width || 0\<close> is the width unless the width is
  falsy, and the only falsy real is 0.
\<close>

definition orZero :: "real \<Rightarrow> real" where
  "orZero v = (if v = 0 then 0 else v)"

fun isElementInSelectionBox :: "Element \<Rightarrow> Rect \<Rightarrow> bool" where
  "isElementInSelectionBox (PathElement i ps sc sw ex ey) box =
     list_ex (\<lambda>point.
        pt_x point \<ge> r_x box \<and> pt_x point \<le> r_x box + r_width box \<and>
        pt_y point \<ge> r_y box \<and> pt_y point \<le> r_y box + r_height box) ps"
| "isElementInSelectionBox e box =
     (el_x e < r_x box + r_width box \<and>
      el_x e + orZero (el_width e) > r_x box \<and>
      el_y e < r_y box + r_height box \<and>
      el_y e + orZero (el_height e) > r_y box)"

text \<open>
  Containment as the specification words it, to be compared with the code: a point is
  on an element when it lies in the element's bounds, the bounds of a path being the
  axis-aligned bounding box of its points; an element is in a selection box when one of
  its points is inside (paths) or its rectangle overlaps the box (images and shapes).
\<close>

fun spec_contains :: "real \<Rightarrow> real \<Rightarrow> Element \<Rightarrow> bool" where
  "spec_contains x y (PathElement i ps sc sw ex ey) =
     (ps \<noteq> [] \<and>
      Min (set (map pt_x ps)) \<le> x \<and> x \<le> Max (set (map pt_x ps)) \<and>
      Min (set (map pt_y ps)) \<le> y \<and> y \<le> Max (set (map pt_y ps)))"
| "spec_contains x y e =
     (el_x e \<le> x \<and> x \<le> el_x e + el_width e \<and> el_y e \<le> y \<and> y \<le> el_y e + el_height e)"

definition short_path :: "Element \<Rightarrow> bool" where
  "short_path e = (is_path e \<and> length (points e) < 2)"

definition spec_in_box :: "Element \<Rightarrow> Rect \<Rightarrow> bool" where
  "spec_in_box e b =
     (if is_path e
      then (\<exists>p \<in> set (points e).
              r_x b \<le> pt_x p \<and> pt_x p \<le> r_x b + r_width b \<and>
              r_y b \<le> pt_y p \<and> pt_y p \<le> r_y b + r_height b)
      else (el_x e < r_x b + r_width b \<and> el_x e + el_width e > r_x b \<and>
            el_y e < r_y b + r_height b \<and> el_y e + el_height e > r_y b))"

section \<open>Application state\<close>

datatype DrawingOptions =
  DrawingOptions (opt_strokeColor: string) (opt_strokeWidth: real) (opt_fillColor: string)

datatype CroppingState =
  CroppingState (crop_elementId: string) (crop_originalElement: Element) (cropBox: Rect)

datatype ResizeStartInfo =
  ResizeStartInfo (originalElement: Element) (startCanvasPoint: Point)
    (rs_handle: string) (rs_shiftKey: bool)

datatype CropStartInfo = CropStartInfo (originalCropBox: Rect) (crop_startCanvasPoint: Point)

text \<open>A value of the map \<open>dragStartElementPositions\<close>: a position or a list of points.\<close>

datatype DragStart = StartPos real real | StartPoints "Point list"

text \<open>
  The state of the \<open>App\<close> component that the pointer handlers and the editing commands
  use: the \<open>useState\<close> values and the \<open>useRef\<close> cells. A handler is modelled as running
  to completion on the values of the latest render, so \<open>elementsRef.current\<close>, which an
  effect sets to \<open>elements\<close> after every render, is the field \<open>elements\<close>.
\<close>

record AppState = Doc +
  selectedElement :: "Element option"
  clipboard :: "Element option"
  action :: Action
  activeTool :: Tool
  panOffset :: Point
  zoom :: real
  drawingOptions :: DrawingOptions
  selectedElementIds :: "string list"
  selectionBox :: "Rect option"
  canvasSize :: real
  croppingState :: "CroppingState option"
  startPoint :: Point
  currentDrawingElementId :: "string option"
  resizeStartInfo :: "ResizeStartInfo option"
  cropStartInfo :: "CropStartInfo option"
  dragStartElementPositions :: "string \<rightharpoonup> DragStart"

definition initialState :: AppState where
  "initialState =
     \<lparr> history = [[]], historyIndex = 0, elements = [],
       selectedElement = None, clipboard = None, action = ActionNone, activeTool = Select,
       panOffset = Point 0 0, zoom = 1,
       drawingOptions = DrawingOptions ''#000000'' 5 ''none'',
       selectedElementIds = [], selectionBox = None, canvasSize = 100,
       croppingState = None, startPoint = Point 0 0, currentDrawingElementId = None,
       resizeStartInfo = None, cropStartInfo = None,
       dragStartElementPositions = Map.empty \<rparr>"

text \<open>
  What a pointer handler reads from its event and from the page: the client
  coordinates, the shift key, the \<open>data-handle\<close> attribute of the event target, and the
  top-left corner of the bounding rectangle of the drawing surface (\<open>None\<close> when
  \<open>svgRef.current\<close> is not set).
\<close>

datatype MouseEvent =
  MouseEvent (clientX: real) (clientY: real) (shiftKey: bool)
    (dataHandle: "string option") (svgRect: "Point option")

text \<open>A string or null used as a condition: null and the empty string are falsy.\<close>

fun truthy :: "string option \<Rightarrow> bool" where
  "truthy None = False"
| "truthy (Some v) = (v \<noteq> [])"

text \<open>\<open>handle.includes(c)\<close> for a one-character string \<open>c\<close>.\<close>

definition str_includes :: "string \<Rightarrow> char \<Rightarrow> bool" where
  "str_includes h c = (c \<in> set h)"

definition canvasX :: "AppState \<Rightarrow> MouseEvent \<Rightarrow> Point \<Rightarrow> real" where
  "canvasX s ev rect =
     ((clientX ev - pt_x rect) / (canvasSize s / 100) - pt_x (panOffset s)) / zoom s"

definition canvasY :: "AppState \<Rightarrow> MouseEvent \<Rightarrow> Point \<Rightarrow> real" where
  "canvasY s ev rect =
     ((clientY ev - pt_y rect) / (canvasSize s / 100) - pt_y (panOffset s)) / zoom s"

text \<open>
  What a handler can end with instead of a new state: an error thrown, or
  \<open>NotANumber\<close> where the code goes on with a value that is not a finite number.
\<close>

datatype js_error = TypeError | NotANumber

text \<open>A list of results as one result: the first error, or all the values.\<close>

fun collect :: "('e + 'a) list \<Rightarrow> 'e + 'a list" where
  "collect [] = Inr []"
| "collect (Inl e # rs) = Inl e"
| "collect (Inr v # rs) = (case collect rs of Inl e \<Rightarrow> Inl e | Inr vs \<Rightarrow> Inr (v # vs))"

section \<open>Pointer down\<close>

text \<open>The erase tool on one point: remove the element hit there, by id.\<close>

definition eraseAt :: "real \<Rightarrow> real \<Rightarrow> Element list \<Rightarrow> (Element \<times> Element list) option" where
  "eraseAt x y els =
     (case getElementAtPosition x y els of
        None \<Rightarrow> None
      | Some elementToErase \<Rightarrow>
          Some (elementToErase, filter (\<lambda>el. el_id el \<noteq> el_id elementToErase) els))"

definition clearSelectionOf :: "Element \<Rightarrow> AppState \<Rightarrow> AppState" where
  "clearSelectionOf erased s =
     (case selectedElement s of
        None \<Rightarrow> s
      | Some sel \<Rightarrow>
          if el_id sel = el_id erased
          then s\<lparr> selectedElement := None, selectedElementIds := [] \<rparr>
          else s)"

definition handleMouseDown :: "string \<Rightarrow> MouseEvent \<Rightarrow> AppState \<Rightarrow> AppState" where
  "handleMouseDown newId ev s =
     (case svgRect ev of
        None \<Rightarrow> s
      | Some rect \<Rightarrow>
         (let cx = canvasX s ev rect; cy = canvasY s ev rect;
              s1 = s\<lparr> startPoint := Point cx cy \<rparr>
          in case croppingState s of
               Some cs \<Rightarrow>
                 s1\<lparr> cropStartInfo := Some (CropStartInfo (cropBox cs) (Point cx cy)) \<rparr>
             | None \<Rightarrow>
                 if activeTool s = Select then
                   (if truthy (dataHandle ev) \<and>
                       (case selectedElement s of
                          None \<Rightarrow> False
                        | Some sel \<Rightarrow> is_image sel \<or> is_shape sel)
                    then s1\<lparr> action := Resizing,
                             resizeStartInfo := Some (ResizeStartInfo (the (selectedElement s))
                               (Point cx cy) (the (dataHandle ev)) (shiftKey ev)) \<rparr>
                    else
                      (case getElementAtPosition cx cy (elements s) of
                         Some clickedElement \<Rightarrow>
                           s1\<lparr> selectedElement := Some clickedElement,
                                selectedElementIds := [el_id clickedElement],
                                action := Moving,
                                dragStartElementPositions :=
                                  (dragStartElementPositions s)(el_id clickedElement \<mapsto>
                                    (if is_path clickedElement
                                     then StartPoints (points clickedElement)
                                     else StartPos (el_x clickedElement) (el_y clickedElement))) \<rparr>
                       | None \<Rightarrow>
                           s1\<lparr> selectedElement := None, selectedElementIds := [],
                                action := Drawing,
                                selectionBox := Some (Rect cx cy 0 0) \<rparr>))
                 else if activeTool s = Pan then
                   s1\<lparr> action := Moving, startPoint := Point (clientX ev) (clientY ev) \<rparr>
                 else if activeTool s = Draw then
                   (case createElement newId Draw cx cy of
                      Some (PathElement i ps sc sw ex ey) \<Rightarrow>
                        s1\<lparr> action := Drawing,
                             currentDrawingElementId := Some i,
                             elements := elements s @
                               [PathElement i [Point cx cy]
                                  (opt_strokeColor (drawingOptions s))
                                  (opt_strokeWidth (drawingOptions s)) ex ey] \<rparr>
                    | _ \<Rightarrow> s1\<lparr> action := Drawing \<rparr>)
                 else if activeTool s = Erase then
                   (case eraseAt cx cy (elements s) of
                      None \<Rightarrow> s1\<lparr> action := Drawing \<rparr>
                    | Some (elementToErase, newElements) \<Rightarrow>
                        clearSelectionOf elementToErase
                          (commitAction newElements
                             (s1\<lparr> action := Drawing, elements := newElements \<rparr>)))
                 else if activeTool s \<in> set [Rectangle, Circle, Triangle] then
                   (case createElement newId (activeTool s) cx cy of
                      Some (ShapeElement i st ex ey w h sc sw fc) \<Rightarrow>
                        s1\<lparr> action := Drawing,
                             currentDrawingElementId := Some i,
                             elements := elements s @
                               [ShapeElement i st ex ey w h
                                  (opt_strokeColor (drawingOptions s))
                                  (opt_strokeWidth (drawingOptions s))
                                  (opt_fillColor (drawingOptions s))] \<rparr>
                    | _ \<Rightarrow> s1\<lparr> action := Drawing \<rparr>)
                 else s1))"

section \<open>Pointer move\<close>

text \<open>
  The moving branch, for the element whose id is the selected one. A path takes its
  points from the drag-start entry, an image or a shape its position. Calling \<open>map\<close> on
  a missing entry or on a position object, and reading \<open>x\<close> of a missing entry, throw a
  \<open>TypeError\<close>; reading \<open>x\<close> of an array gives \<open>undefined\<close> and the sum is not a number,
  which the model reports as an error since it has no such value.
\<close>

definition moveOne ::
  "(string \<rightharpoonup> DragStart) \<Rightarrow> real \<Rightarrow> real \<Rightarrow> Element \<Rightarrow> js_error + Element" where
  "moveOne starts dx dy el =
     (if is_path el
      then (case starts (el_id el) of
              Some (StartPoints originalPoints) \<Rightarrow>
                Inr (with_points
                       (map (\<lambda>p. Point (pt_x p + dx) (pt_y p + dy)) originalPoints) el)
            | _ \<Rightarrow> Inl TypeError)
      else (case starts (el_id el) of
              Some (StartPos ox oy) \<Rightarrow> Inr (with_xy (ox + dx) (oy + dy) el)
            | Some (StartPoints ps) \<Rightarrow> Inl NotANumber
            | None \<Rightarrow> Inl TypeError))"

text \<open>
  The resizing branch: the new rectangle \<open>(newX, newY, newWidth, newHeight)\<close> from the
  original element, the handle, the shift key and the drag distance. The four mutable
  variables of the source are numbered by the assignment that wrote them. With the
  shift key held the code divides twice, by the original height and, for a left or
  right handle, by the aspect ratio. A division by zero gives an infinity or
  not-a-number in the code, which then stores it in the element; the model has no such
  value and reports \<open>NotANumber\<close> in its place.
\<close>

definition resizeRect ::
  "Element \<Rightarrow> string \<Rightarrow> bool \<Rightarrow> real \<Rightarrow> real \<Rightarrow>
     js_error + real \<times> real \<times> real \<times> real" where
  "resizeRect orig h shift dx dy =
     (let newX0 = el_x orig; newY0 = el_y orig;
          newWidth0 = el_width orig; newHeight0 = el_height orig;
          newX1 = (if str_includes h CHR ''l'' then el_x orig + dx else newX0);
          newWidth1 = (if str_includes h CHR ''l'' then el_width orig - dx else newWidth0);
          newWidth2 = (if str_includes h CHR ''r'' then el_width orig + dx else newWidth1);
          newY1 = (if str_includes h CHR ''t'' then el_y orig + dy else newY0);
          newHeight1 = (if str_includes h CHR ''t'' then el_height orig - dy else newHeight0);
          newHeight2 = (if str_includes h CHR ''b'' then el_height orig + dy else newHeight1);
          minSize = 10;
          newX2 = (if newWidth2 < minSize \<and> str_includes h CHR ''l''
                   then el_x orig + el_width orig - minSize else newX1);
          newWidth3 = (if newWidth2 < minSize then minSize else newWidth2);
          newY2 = (if newHeight2 < minSize \<and> str_includes h CHR ''t''
                   then el_y orig + el_height orig - minSize else newY1);
          newHeight3 = (if newHeight2 < minSize then minSize else newHeight2)
      in if shift then
           (if el_height orig = 0 then Inl NotANumber
            else
              (let aspectRatio = el_width orig / el_height orig
               in if str_includes h CHR ''t'' \<or> str_includes h CHR ''b'' then
                    (let newWidth4 = newHeight3 * aspectRatio;
                         newX3 = (if str_includes h CHR ''l''
                                  then el_x orig + el_width orig - newWidth4 else newX2)
                     in Inr (newX3, newY2, newWidth4, newHeight3))
                  else if aspectRatio = 0 then Inl NotANumber
                  else
                    (let newHeight4 = newWidth3 / aspectRatio;
                         newY3 = (if str_includes h CHR ''t''
                                  then el_y orig + el_height orig - newHeight4 else newY2)
                     in Inr (newX2, newY3, newWidth3, newHeight4))))
         else Inr (newX2, newY2, newWidth3, newHeight3))"

definition resizeElements ::
  "ResizeStartInfo \<Rightarrow> real \<Rightarrow> real \<Rightarrow> Element list \<Rightarrow> js_error + Element list" where
  "resizeElements info cx cy els =
     (let dx = cx - pt_x (startCanvasPoint info);
          dy = cy - pt_y (startCanvasPoint info)
      in case resizeRect (originalElement info) (rs_handle info) (rs_shiftKey info) dx dy of
           Inl e \<Rightarrow> Inl e
         | Inr (newX, newY, newWidth, newHeight) \<Rightarrow>
             Inr (map (\<lambda>el. if el_id el = el_id (originalElement info)
                             then with_rect newX newY newWidth newHeight el else el) els))"

text \<open>The rectangle spanned by the start point and the current point.\<close>

definition spanRect :: "Point \<Rightarrow> real \<Rightarrow> real \<Rightarrow> Rect" where
  "spanRect start cx cy =
     (let width = cx - pt_x start; height = cy - pt_y start
      in Rect (if width < 0 then cx else pt_x start)
              (if height < 0 then cy else pt_y start)
              \<bar>width\<bar> \<bar>height\<bar>)"

definition handleMouseMove :: "MouseEvent \<Rightarrow> AppState \<Rightarrow> js_error + AppState" where
  "handleMouseMove ev s =
     (case svgRect ev of
        None \<Rightarrow> Inr s
      | Some rect \<Rightarrow>
         (let cx = canvasX s ev rect; cy = canvasY s ev rect
          in if croppingState s \<noteq> None \<and> cropStartInfo s \<noteq> None then
               (let info = the (cropStartInfo s); prev = the (croppingState s);
                    dx = cx - pt_x (crop_startCanvasPoint info);
                    dy = cy - pt_y (crop_startCanvasPoint info)
                in Inr (s\<lparr> croppingState := Some (CroppingState (crop_elementId prev)
                     (crop_originalElement prev)
                     (Rect (r_x (originalCropBox info) + dx) (r_y (originalCropBox info) + dy)
                        (r_width (originalCropBox info)) (r_height (originalCropBox info)))) \<rparr>))
             else if action s = Moving \<and> selectedElement s \<noteq> None \<and> activeTool s = Select then
               (let dx = cx - pt_x (startPoint s); dy = cy - pt_y (startPoint s)
                in case collect (map (\<lambda>el.
                          if el_id el = el_id (the (selectedElement s))
                          then moveOne (dragStartElementPositions s) dx dy el
                          else Inr el) (elements s)) of
                     Inl e \<Rightarrow> Inl e
                   | Inr newElements \<Rightarrow> Inr (s\<lparr> elements := newElements \<rparr>))
             else if action s = Resizing \<and> resizeStartInfo s \<noteq> None then
               (case resizeElements (the (resizeStartInfo s)) cx cy (elements s) of
                  Inl e \<Rightarrow> Inl e
                | Inr newElements \<Rightarrow> Inr (s\<lparr> elements := newElements \<rparr>))
             else if action s = Drawing \<and> activeTool s = Select then
               Inr (s\<lparr> selectionBox := Some (spanRect (startPoint s) cx cy) \<rparr>)
             else if action s = Moving \<and> activeTool s = Pan then
               (let dx = clientX ev - pt_x (startPoint s); dy = clientY ev - pt_y (startPoint s)
                in Inr (s\<lparr> panOffset := Point (pt_x (panOffset s) + dx) (pt_y (panOffset s) + dy),
                           startPoint := Point (clientX ev) (clientY ev) \<rparr>))
             else if action s = Drawing \<and> activeTool s = Draw
                     \<and> truthy (currentDrawingElementId s) then
               Inr (s\<lparr> elements :=
                      map (\<lambda>el. if Some (el_id el) = currentDrawingElementId s \<and> is_path el
                                 then with_points (points el @ [Point cx cy]) el else el)
                        (elements s) \<rparr>)
             else if action s = Drawing \<and> activeTool s = Erase then
               (case eraseAt cx cy (elements s) of
                  None \<Rightarrow> Inr s
                | Some (elementToErase, newElements) \<Rightarrow>
                    Inr (clearSelectionOf elementToErase (s\<lparr> elements := newElements \<rparr>)))
             else if action s = Drawing \<and> truthy (currentDrawingElementId s) then
               Inr (s\<lparr> elements :=
                      map (\<lambda>el. if Some (el_id el) = currentDrawingElementId s \<and> is_shape el
                                 then (case spanRect (startPoint s) cx cy of
                                         Rect bx by bw bh \<Rightarrow> with_rect bx by bw bh el)
                                 else el)
                        (elements s) \<rparr>)
             else Inr s))"

section \<open>Pointer up\<close>

definition clearGesture :: "AppState \<Rightarrow> AppState" where
  "clearGesture s =
     s\<lparr> action := ActionNone, currentDrawingElementId := None,
        dragStartElementPositions := Map.empty,
        cropStartInfo := None, resizeStartInfo := None \<rparr>"

definition handleMouseUp :: "AppState \<Rightarrow> AppState" where
  "handleMouseUp s =
     (if croppingState s \<noteq> None \<and> cropStartInfo s \<noteq> None then
        s\<lparr> cropStartInfo := None \<rparr>
      else clearGesture
        (if action s = Drawing \<and> activeTool s = Select \<and> selectionBox s \<noteq> None then
           s\<lparr> selectedElementIds :=
                 map el_id (filter (\<lambda>element.
                   isElementInSelectionBox element (the (selectionBox s))) (elements s)),
              selectionBox := None \<rparr>
         else if action s = Drawing \<and> activeTool s = Draw
                 \<and> truthy (currentDrawingElementId s) then
           commitAction (elements s) s
         else if action s = Drawing \<and> activeTool s = Erase then
           commitAction (elements s) s
         else if action s = Drawing \<and> activeTool s \<in> set [Rectangle, Circle, Triangle]
                 \<and> truthy (currentDrawingElementId s) then
           commitAction (elements s) s
         else if action s = Moving \<and> selectedElement s \<noteq> None then
           commitAction (elements s) s
         else if action s = Resizing \<and> resizeStartInfo s \<noteq> None then
           (let s1 = commitAction (elements s) s
            in case find (\<lambda>el. el_id el = el_id (originalElement (the (resizeStartInfo s))))
                    (elements s) of
                 Some updatedElement \<Rightarrow> s1\<lparr> selectedElement := Some updatedElement \<rparr>
               | None \<Rightarrow> s1)
         else s))"

section \<open>Copy and paste\<close>

definition handleCopy :: "AppState \<Rightarrow> AppState" where
  "handleCopy s =
     (case selectedElement s of
        Some sel \<Rightarrow> s\<lparr> clipboard := Some sel \<rparr>
      | None \<Rightarrow> s)"

text \<open>
  \<open>handlePaste\<close>: the spread of the clipboard with a new id and both coordinates
  increased by 10. The id returned by its call of \<open>generateId\<close> is the first argument.
\<close>

definition pastedElement :: "string \<Rightarrow> Element \<Rightarrow> Element" where
  "pastedElement newId clip = with_xy (el_x clip + 10) (el_y clip + 10) (with_id newId clip)"

definition handlePaste :: "string \<Rightarrow> AppState \<Rightarrow> AppState" where
  "handlePaste newId s =
     (case clipboard s of
        None \<Rightarrow> s
      | Some clip \<Rightarrow>
          (let newElement = pastedElement newId clip;
               newElements = elements s @ [newElement]
           in commitAction newElements (s\<lparr> elements := newElements \<rparr>)))"

section \<open>Input images of the generation request\<close>

datatype ImageInput = ImageInput (in_href: string) (in_mimeType: string)

text \<open>
  What the browser does with one image that is referenced by URL: a statement of the
  \<open>try\<close> block throws an error with the given message before the promise exists
  (\<open>SyncThrow\<close>), or the image loads and the canvas is read back as the given data URL
  (\<open>Loaded\<close>), or the image fails to load and \<open>onerror\<close> rejects the promise
  (\<open>LoadFailed\<close>). A read-back that throws inside \<open>onload\<close> leaves the promise
  pending for ever and is not among the outcomes.
\<close>

datatype LoadOutcome = SyncThrow string | Loaded string | LoadFailed

text \<open>
  The environment of a conversion: the outcome for each URL, and the data URL of the
  white 512 by 512 canvas (\<open>None\<close> when no drawing context is available).
\<close>

datatype Browser = Browser (loadImage: "string \<Rightarrow> LoadOutcome") (blankDataUrl: "string option")

definition startsWith :: "string \<Rightarrow> string \<Rightarrow> bool" where
  "startsWith s p = (take (length p) s = p)"

definition orPng :: "string \<Rightarrow> string" where
  "orPng m = (if m = [] then ''image/png'' else m)"

text \<open>
  The asynchronous callback given to \<open>map\<close>, as the settled value of the promise it
  returns: \<open>Inr\<close> a fulfilled input, \<open>Inl\<close> the message of the rejection. The promise of
  the load is returned from inside the \<open>try\<close> block without being awaited there, so the
  \<open>catch\<close> block handles only what the block throws before returning; a rejection by
  \<open>onerror\<close> settles the returned promise.
\<close>

definition convertImage :: "Browser \<Rightarrow> Element \<Rightarrow> string + ImageInput" where
  "convertImage env el =
     (if startsWith (href el) ''data:'' then Inr (ImageInput (href el) (mimeType el))
      else (case loadImage env (href el) of
              SyncThrow message \<Rightarrow>
                (case blankDataUrl env of
                   Some dataUrl \<Rightarrow> Inr (ImageInput dataUrl ''image/png'')
                 | None \<Rightarrow> Inl message)
            | Loaded dataUrl \<Rightarrow> Inr (ImageInput dataUrl (orPng (mimeType el)))
            | LoadFailed \<Rightarrow> Inl (''Failed to load image: '' @ href el)))"

text \<open>
  The outcome of \<open>handleGenerateArt\<close> up to its call of the service: nothing happens on
  a blank prompt, the service is called with the inputs and the prompt, or the outer
  \<open>catch\<close> sets the error message and the service is not called.
\<close>

datatype GenerateOutcome =
    Ignored
  | ServiceCalled "ImageInput list" string
  | ErrorShown string

text \<open>
  \<open>prompt.trim()\<close>. Prompts are taken to be ASCII text, and \<open>isSpace\<close> lists the ASCII
  white space that \<open>trim\<close> strips; the other white space of Unicode is outside the
  model.
\<close>

definition isSpace :: "char \<Rightarrow> bool" where
  "isSpace c = (c \<in> set [CHR '' '', CHR 0x09, CHR 0x0A, CHR 0x0B, CHR 0x0C, CHR 0x0D])"

definition trim :: "string \<Rightarrow> string" where
  "trim p = rev (dropWhile isSpace (rev (dropWhile isSpace p)))"

text \<open>
  \<open>Promise.all\<close> over the conversions is \<open>collect\<close>: it fulfils with all the inputs or
  rejects. The code rejects with the rejection that settles first in time; the model
  takes the first in list order, which is the same one whenever a single conversion is
  rejected, and the order in time of several failures is outside the model.
\<close>

definition handleGenerateArt ::
  "Browser \<Rightarrow> string \<Rightarrow> Element list \<Rightarrow> string list \<Rightarrow> GenerateOutcome" where
  "handleGenerateArt env prompt els selectedIds =
     (if trim prompt = [] then Ignored
      else
        (let selectedImageElements =
               filter (\<lambda>el. el_id el \<in> set selectedIds \<and> is_image el) els
         in if length selectedImageElements = 0 then
              ServiceCalled
                (case blankDataUrl env of
                   Some dataUrl \<Rightarrow> [ImageInput dataUrl ''image/png'']
                 | None \<Rightarrow> [])
                prompt
            else
              (case collect (map (convertImage env) selectedImageElements) of
                 Inr convertedImages \<Rightarrow> ServiceCalled convertedImages prompt
               | Inl message \<Rightarrow> ErrorShown (''Failed to generate image: '' @ message))))"

section \<open>Sequences of events\<close>

text \<open>
  The events of a session, each handled on the state the previous one left. The tool
  buttons call \<open>setActiveTool\<close>. A handler that throws ends the run with its error.
\<close>

datatype Event =
    MouseDown string MouseEvent
  | MouseMove MouseEvent
  | MouseUp
  | SetActiveTool Tool
  | Copy
  | Paste string
  | Undo
  | Redo

fun dispatch :: "Event \<Rightarrow> AppState \<Rightarrow> js_error + AppState" where
  "dispatch (MouseDown newId ev) s = Inr (handleMouseDown newId ev s)"
| "dispatch (MouseMove ev) s = handleMouseMove ev s"
| "dispatch MouseUp s = Inr (handleMouseUp s)"
| "dispatch (SetActiveTool tool) s = Inr (s\<lparr> activeTool := tool \<rparr>)"
| "dispatch Copy s = Inr (handleCopy s)"
| "dispatch (Paste newId) s = Inr (handlePaste newId s)"
| "dispatch Undo s = Inr (handleUndo s)"
| "dispatch Redo s = Inr (handleRedo s)"

fun run :: "Event list \<Rightarrow> AppState \<Rightarrow> js_error + AppState" where
  "run [] s = Inr s"
| "run (e # es) s = (case dispatch e s of Inl err \<Rightarrow> Inl err | Inr t \<Rightarrow> run es t)"

text \<open>A pointer event at client coordinates on a surface whose corner is the origin.\<close>

definition pointerAt :: "real \<Rightarrow> real \<Rightarrow> MouseEvent" where
  "pointerAt x y = MouseEvent x y False None (Some (Point 0 0))"

section \<open>History: lemmas\<close>

lemma commits_shape:
  "doc_inv s \<Longrightarrow> historyIndex s = length (history s) - 1 \<Longrightarrow>
   history (foldl setAndCommit s cs) = history s @ cs \<and>
   historyIndex (foldl setAndCommit s cs) = length (history s @ cs) - 1 \<and>
   doc_inv (foldl setAndCommit s cs)"
proof (induction cs arbitrary: s)
  case Nil
  then show ?case by simp
next
  case (Cons c cs)
  let ?t = "setAndCommit s c"
  from Cons.prems have h: "history ?t = history s @ [c]"
    by (simp add: setAndCommit_def commitAction_def doc_inv_def Let_def)
  have i: "historyIndex ?t = length (history ?t) - 1"
    by (simp add: setAndCommit_def commitAction_def Let_def)
  have e: "elements ?t = c"
    by (simp add: setAndCommit_def commitAction_def Let_def)
  have inv: "doc_inv ?t"
    using h i e by (simp add: doc_inv_def nth_append)
  from Cons.IH [OF inv i] h show ?case by simp
qed

lemma undo_step:
  "doc_inv t \<Longrightarrow> 0 < historyIndex t \<Longrightarrow>
   history (handleUndo t) = history t \<and>
   historyIndex (handleUndo t) = historyIndex t - 1 \<and>
   doc_inv (handleUndo t)"
  by (auto simp: handleUndo_def doc_inv_def Let_def)

lemma undo_pow:
  "k \<le> historyIndex s \<Longrightarrow> doc_inv s \<Longrightarrow>
   history ((handleUndo ^^ k) s) = history s \<and>
   historyIndex ((handleUndo ^^ k) s) = historyIndex s - k \<and>
   doc_inv ((handleUndo ^^ k) s)"
proof (induction k)
  case 0
  then show ?case by simp
next
  case (Suc k)
  let ?t = "(handleUndo ^^ k) s"
  from Suc have IH: "history ?t = history s" "historyIndex ?t = historyIndex s - k" "doc_inv ?t"
    by simp_all
  from Suc.prems IH have pos: "0 < historyIndex ?t" by simp
  from undo_step [OF IH(3) pos] IH show ?case by simp
qed

lemma redo_undo_id:
  assumes "doc_inv s" and "0 < historyIndex s"
  shows "handleRedo (handleUndo s) = s"
proof -
  let ?u = "handleUndo s"
  from assms have u: "?u = s\<lparr> historyIndex := historyIndex s - 1,
      elements := history s ! (historyIndex s - 1) \<rparr>"
    by (simp add: handleUndo_def Let_def)
  from assms have lt: "historyIndex ?u < length (history ?u) - 1"
    by (auto simp: u doc_inv_def)
  from assms have idx: "historyIndex ?u + 1 = historyIndex s"
    by (simp add: u)
  have "handleRedo ?u = ?u\<lparr> historyIndex := historyIndex ?u + 1,
      elements := history ?u ! (historyIndex ?u + 1) \<rparr>"
    using lt by (simp add: handleRedo_def Let_def)
  also have "\<dots> = s\<lparr> historyIndex := historyIndex s, elements := history s ! historyIndex s \<rparr>"
    unfolding idx by (simp add: u)
  also have "\<dots> = s"
    using assms by (simp add: doc_inv_def)
  finally show ?thesis .
qed
section \<open>Hit-testing: lemmas\<close>


lemma Min_insert_min:
  "finite S \<Longrightarrow> Min (insert (min a b) S) = Min (insert a (insert b S))"
  for a b :: real
  by (cases "S = {}") (auto simp: min.assoc)

lemma Max_insert_max:
  "finite S \<Longrightarrow> Max (insert (max a b) S) = Max (insert a (insert b S))"
  for a b :: real
  by (cases "S = {}") (auto simp: max.assoc)

lemma extent_fold:
  "foldl extentStep (a, b, c, d) ps =
     (Min (insert a (set (map pt_x ps))), Max (insert b (set (map pt_x ps))),
      Min (insert c (set (map pt_y ps))), Max (insert d (set (map pt_y ps))))"
proof (induction ps arbitrary: a b c d)
  case Nil
  show ?case by simp
next
  case (Cons p ps)
  have "foldl extentStep (a, b, c, d) (p # ps) =
        foldl extentStep (min a (pt_x p), max b (pt_x p), min c (pt_y p), max d (pt_y p)) ps"
    by (simp add: extentStep_def)
  also have "\<dots> =
     (Min (insert (min a (pt_x p)) (set (map pt_x ps))),
      Max (insert (max b (pt_x p)) (set (map pt_x ps))),
      Min (insert (min c (pt_y p)) (set (map pt_y ps))),
      Max (insert (max d (pt_y p)) (set (map pt_y ps))))"
    by (rule Cons.IH)
  also have "\<dots> =
     (Min (insert a (set (map pt_x (p # ps)))), Max (insert b (set (map pt_x (p # ps)))),
      Min (insert c (set (map pt_y (p # ps)))), Max (insert d (set (map pt_y (p # ps)))))"
    by (simp add: Min_insert_min Max_insert_max)
  finally show ?case .
qed

lemma pointsExtent_bbox:
  assumes "ps \<noteq> []"
  shows "pointsExtent ps =
     (Min (set (map pt_x ps)), Max (set (map pt_x ps)),
      Min (set (map pt_y ps)), Max (set (map pt_y ps)))"
proof -
  from assms obtain p qs where ps: "ps = p # qs" by (cases ps) auto
  have "insert (pt_x (hd ps)) (set (map pt_x ps)) = set (map pt_x ps)"
    and "insert (pt_y (hd ps)) (set (map pt_y ps)) = set (map pt_y ps)"
    by (auto simp: ps)
  then show ?thesis
    unfolding pointsExtent_def extent_fold by simp
qed

lemma hitElement_spec:
  "hitElement x y e = (spec_contains x y e \<and> \<not> short_path e)"
proof (cases e)
  case (PathElement i ps sc sw ex ey)
  show ?thesis
  proof (cases "length ps < 2")
    case True
    then show ?thesis by (simp add: PathElement short_path_def)
  next
    case False
    then have "ps \<noteq> []" by auto
    from pointsExtent_bbox [OF this] False show ?thesis
      by (auto simp: PathElement short_path_def)
  qed
qed (simp_all add: short_path_def)

lemma scanDown_None:
  "scanDown x y els n = None \<longleftrightarrow> (\<forall>i<n. \<not> hitElement x y (els ! i))"
  by (induction n) (auto simp: less_Suc_eq)

lemma scanDown_Some:
  "scanDown x y els n = Some e \<Longrightarrow>
   \<exists>i<n. els ! i = e \<and> hitElement x y e \<and> (\<forall>j<n. i < j \<longrightarrow> \<not> hitElement x y (els ! j))"
proof (induction n)
  case 0
  then show ?case by simp
next
  case (Suc n)
  show ?case
  proof (cases "hitElement x y (els ! n)")
    case True
    with Suc.prems have "els ! n = e" by simp
    with True show ?thesis by (intro exI [of _ n]) auto
  next
    case False
    with Suc.prems have "scanDown x y els n = Some e" by simp
    from Suc.IH [OF this] obtain i where i: "i < n" "els ! i = e" "hitElement x y e"
      "\<forall>j<n. i < j \<longrightarrow> \<not> hitElement x y (els ! j)" by blast
    with False show ?thesis
      by (intro exI [of _ i]) (auto simp: less_Suc_eq)
  qed
qed


section \<open>Pointer gestures and commands: lemmas\<close>

lemma in_box_spec: "isElementInSelectionBox e b = spec_in_box e b"
  by (cases e) (auto simp: spec_in_box_def orZero_def list_ex_iff)

lemma mouseUp_rubber_band:
  assumes "\<not> (croppingState s \<noteq> None \<and> cropStartInfo s \<noteq> None)"
    and "action s = Drawing" and "activeTool s = Select" and "selectionBox s = Some b"
  shows "handleMouseUp s = clearGesture
     (s\<lparr> selectedElementIds :=
            map el_id (filter (\<lambda>element. isElementInSelectionBox element b) (elements s)),
         selectionBox := None \<rparr>)"
  using assms by (auto simp: handleMouseUp_def)

lemma gesture_box:
  "handleMouseMove (MouseEvent 100 100 False None (Some (Point 0 0)))
     (handleMouseDown ''n'' (MouseEvent 0 0 False None (Some (Point 0 0)))
        (initialState\<lparr> elements :=
          [ShapeElement ''a'' Rectangle 10 10 5 5 ''#000000'' 2 ''none'',
           PathElement ''p'' [Point 150 150, Point 100 50] ''#000000'' 5 0 0,
           ShapeElement ''c'' Rectangle 200 200 10 10 ''#000000'' 2 ''none''] \<rparr>)) =
   Inr (initialState\<lparr> elements :=
          [ShapeElement ''a'' Rectangle 10 10 5 5 ''#000000'' 2 ''none'',
           PathElement ''p'' [Point 150 150, Point 100 50] ''#000000'' 5 0 0,
           ShapeElement ''c'' Rectangle 200 200 10 10 ''#000000'' 2 ''none''],
         action := Drawing, selectionBox := Some (Rect 0 0 100 100) \<rparr>)"
  by (simp add: handleMouseMove_def handleMouseDown_def initialState_def canvasX_def
      canvasY_def getElementAtPosition_def pointsExtent_def extentStep_def spanRect_def Let_def)

lemma pasted_fields:
  "el_id (pastedElement newId c) = newId \<and>
   el_x (pastedElement newId c) = el_x c + 10 \<and>
   el_y (pastedElement newId c) = el_y c + 10 \<and>
   with_xy (el_x c) (el_y c) (with_id (el_id c) (pastedElement newId c)) = c"
  by (cases c) (simp_all add: pastedElement_def)

lemma paste_state:
  "clipboard s = Some c \<Longrightarrow>
   handlePaste newId s =
     commitAction (elements s @ [pastedElement newId c])
       (s\<lparr> elements := elements s @ [pastedElement newId c] \<rparr>)"
  by (simp add: handlePaste_def Let_def)

lemma paste_keeps:
  "clipboard s = Some c \<Longrightarrow>
   elements (handlePaste newId s) = elements s @ [pastedElement newId c] \<and>
   clipboard (handlePaste newId s) = Some c"
  by (simp add: paste_state commitAction_def Let_def)

lemma pasted_rect:
  "\<not> is_path c \<Longrightarrow>
   el_x (pastedElement newId c) = el_x c + 10 \<and>
   el_y (pastedElement newId c) = el_y c + 10 \<and>
   getElementBounds c = Rect (el_x c) (el_y c) (el_width c) (el_height c) \<and>
   getElementBounds (pastedElement newId c) =
     Rect (el_x c + 10) (el_y c + 10) (el_width c) (el_height c) \<and>
   hitElement (x + 10) (y + 10) (pastedElement newId c) = hitElement x y c"
  by (cases c) (auto simp: pastedElement_def)

text \<open>Two generated ids are equal exactly when the clock readings and the nine random
  characters are.\<close>

lemma digit_char:
  assumes "d < 10"
  shows "of_char (digits10 ! d) = (48 + d :: nat) \<and> digits10 ! d \<noteq> CHR ''_''"
proof -
  from assms have "d = 0 \<or> d = 1 \<or> d = 2 \<or> d = 3 \<or> d = 4 \<or> d = 5 \<or> d = 6 \<or> d = 7 \<or> d = 8 \<or> d = 9"
    by arith
  then show ?thesis
    by (elim disjE) (simp_all add: digits10_def)
qed

lemma decimal_no_underscore: "CHR ''_'' \<notin> set (decimal n)"
proof (induction n rule: decimal.induct)
  case (1 n)
  show ?case
  proof (cases "n < 10")
    case True
    then show ?thesis using digit_char [of n] by (auto simp: decimal.simps [of n])
  next
    case False
    with 1 digit_char [of "n mod 10"] show ?thesis
      by (auto simp: decimal.simps [of n])
  qed
qed

lemma digitsValue_decimal: "digitsValue (decimal n) = n"
proof (induction n rule: decimal.induct)
  case (1 n)
  show ?case
  proof (cases "n < 10")
    case True
    then show ?thesis using digit_char [of n]
      by (simp add: decimal.simps [of n] digitsValue_def)
  next
    case False
    with 1 have "digitsValue (decimal (n div 10)) = n div 10" by simp
    with False digit_char [of "n mod 10"] show ?thesis
      by (simp add: decimal.simps [of n] digitsValue_def)
  qed
qed

lemma decimal_inj: "decimal m = decimal n \<Longrightarrow> m = n"
  by (metis digitsValue_decimal)

lemma split_at_underscore:
  assumes "CHR ''_'' \<notin> set a" and "CHR ''_'' \<notin> set b"
    and "a @ CHR ''_'' # x = b @ CHR ''_'' # y"
  shows "a = b \<and> x = y"
proof -
  have ta: "takeWhile (\<lambda>c. c \<noteq> CHR ''_'') (a @ CHR ''_'' # x) = a"
    using assms(1) by (induction a) auto
  have tb: "takeWhile (\<lambda>c. c \<noteq> CHR ''_'') (b @ CHR ''_'' # y) = b"
    using assms(2) by (induction b) auto
  from ta tb assms(3) have "a = b" by simp
  with assms(3) show ?thesis by simp
qed

lemma generateId_eq:
  "generateId t1 r1 = generateId t2 r2 \<longleftrightarrow>
     t1 = t2 \<and> take 9 (drop 2 r1) = take 9 (drop 2 r2)"
proof
  assume "generateId t1 r1 = generateId t2 r2"
  then have "decimal t1 @ CHR ''_'' # take 9 (drop 2 r1) = decimal t2 @ CHR ''_'' # take 9 (drop 2 r2)"
    by (simp add: generateId_def)
  from split_at_underscore [OF decimal_no_underscore decimal_no_underscore this]
  show "t1 = t2 \<and> take 9 (drop 2 r1) = take 9 (drop 2 r2)"
    by (auto dest: decimal_inj)
next
  assume "t1 = t2 \<and> take 9 (drop 2 r1) = take 9 (drop 2 r2)"
  then show "generateId t1 r1 = generateId t2 r2" by (simp add: generateId_def)
qed

lemma decimal_example: "decimal 1700000000000 = ''1700000000000''"
  by (simp add: decimal.simps [of "numeral k" for k] decimal.simps [of "Suc 0"] digits10_def)

lemma generateId_example:
  "generateId 1700000000000 ''0.4fzyo82mvyr'' = ''id_1700000000000_4fzyo82mv''"
  by (simp add: generateId_def decimal_example)

lemma resize_floor_without_shift:
  "resizeRect orig h False dx dy = Inr (nx, ny, nw, nh) \<Longrightarrow> 10 \<le> nw \<and> 10 \<le> nh"
  by (auto simp: resizeRect_def Let_def split: if_splits)

text \<open>
  An erase gesture from a state whose cursor is on the last history entry: pointer-down,
  any pointer moves, pointer-up. The moves leave the history alone. The gesture adds two
  history entries when pointer-down hits an element and one when it does not.
\<close>

lemma clearSelectionOf_keeps:
  "history (clearSelectionOf e s) = history s \<and>
   historyIndex (clearSelectionOf e s) = historyIndex s \<and>
   elements (clearSelectionOf e s) = elements s \<and>
   activeTool (clearSelectionOf e s) = activeTool s \<and>
   action (clearSelectionOf e s) = action s \<and>
   croppingState (clearSelectionOf e s) = croppingState s"
  by (simp add: clearSelectionOf_def split: option.splits)

lemma erase_move:
  assumes "activeTool s = Erase" and "action s = Drawing" and "croppingState s = None"
  shows "\<exists>t. handleMouseMove ev s = Inr t \<and> activeTool t = Erase \<and> action t = Drawing \<and>
     croppingState t = None \<and> history t = history s \<and> historyIndex t = historyIndex s"
proof (cases "svgRect ev")
  case None
  with assms show ?thesis by (simp add: handleMouseMove_def)
next
  case (Some rect)
  show ?thesis
  proof (cases "eraseAt (canvasX s ev rect) (canvasY s ev rect) (elements s)")
    case None
    with Some assms show ?thesis by (simp add: handleMouseMove_def Let_def)
  next
    case (Some hit)
    obtain e rest where "hit = (e, rest)" by (cases hit)
    with Some \<open>svgRect ev = Some rect\<close> assms show ?thesis
      by (simp add: handleMouseMove_def Let_def clearSelectionOf_keeps)
  qed
qed

lemma erase_moves:
  assumes "activeTool s = Erase" and "action s = Drawing" and "croppingState s = None"
  shows "\<exists>t. run (map MouseMove evs @ rest) s = run rest t \<and> activeTool t = Erase \<and>
     action t = Drawing \<and> croppingState t = None \<and> history t = history s \<and>
     historyIndex t = historyIndex s"
  using assms
proof (induction evs arbitrary: s)
  case Nil
  then show ?case by auto
next
  case (Cons ev evs)
  from erase_move [OF Cons.prems, of ev] obtain t where
    t: "handleMouseMove ev s = Inr t" "activeTool t = Erase" "action t = Drawing"
      "croppingState t = None" "history t = history s" "historyIndex t = historyIndex s"
    by blast
  from Cons.IH [OF t(2,3,4)] t show ?case by auto
qed

lemma erase_down:
  assumes "activeTool s = Erase" and "croppingState s = None" and "svgRect ev = Some rect"
  shows "activeTool (handleMouseDown newId ev s) = Erase \<and>
     action (handleMouseDown newId ev s) = Drawing \<and>
     croppingState (handleMouseDown newId ev s) = None \<and>
     length (history (handleMouseDown newId ev s)) =
       (if getElementAtPosition (canvasX s ev rect) (canvasY s ev rect) (elements s) = None
        then length (history s)
        else length (take (historyIndex s + 1) (history s)) + 1) \<and>
     historyIndex (handleMouseDown newId ev s) =
       (if getElementAtPosition (canvasX s ev rect) (canvasY s ev rect) (elements s) = None
        then historyIndex s
        else length (take (historyIndex s + 1) (history s)))"
  using assms
  by (auto simp: handleMouseDown_def Let_def eraseAt_def clearSelectionOf_keeps commitAction_def
      split: option.splits)

lemma erase_up:
  assumes "activeTool s = Erase" and "action s = Drawing" and "croppingState s = None"
  shows "history (handleMouseUp s) = take (historyIndex s + 1) (history s) @ [elements s]"
  using assms by (simp add: handleMouseUp_def clearGesture_def commitAction_def Let_def)

lemma erase_gesture_entries:
  assumes tool: "activeTool s = Erase" and crop: "croppingState s = None"
    and rect: "svgRect dn = Some rect"
    and top: "historyIndex s + 1 = length (history s)"
  shows "\<exists>t. run (MouseDown newId dn # map MouseMove evs @ [MouseUp]) s = Inr t \<and>
     length (history t) = length (history s) +
       (if getElementAtPosition (canvasX s dn rect) (canvasY s dn rect) (elements s) = None
        then 1 else 2)"
proof -
  let ?d = "handleMouseDown newId dn s"
  note d = erase_down [OF tool crop rect, of newId]
  from d have dt: "activeTool ?d = Erase" "action ?d = Drawing" "croppingState ?d = None"
    by simp_all
  from erase_moves [OF dt, of evs "[MouseUp]"] obtain m where
    m: "run (map MouseMove evs @ [MouseUp]) ?d = run [MouseUp] m" "activeTool m = Erase"
      "action m = Drawing" "croppingState m = None" "history m = history ?d"
      "historyIndex m = historyIndex ?d"
    by blast
  have r: "run (MouseDown newId dn # map MouseMove evs @ [MouseUp]) s = Inr (handleMouseUp m)"
    using m(1) by simp
  have "length (history (handleMouseUp m)) = length (history s) +
       (if getElementAtPosition (canvasX s dn rect) (canvasY s dn rect) (elements s) = None
        then 1 else 2)"
    using erase_up [OF m(2,3,4)] m(5,6) d top by (auto simp: min_def)
  with r show ?thesis by blast
qed

text \<open>Moving a path rewrites its points and leaves its \<open>x\<close> and \<open>y\<close> as they were.\<close>

lemma move_path_keeps_xy:
  "moveOne starts dx dy el = Inr el' \<Longrightarrow> is_path el \<Longrightarrow>
   is_path el' \<and> el_x el' = el_x el \<and> el_y el' = el_y el"
  by (cases el) (auto simp: moveOne_def split: option.splits DragStart.splits)

text \<open>The definitions that evaluate a run of events on a concrete state.\<close>

lemmas ui_defs = handleMouseMove_def handleMouseDown_def handleMouseUp_def initialState_def
      canvasX_def canvasY_def resizeElements_def resizeRect_def str_includes_def
      clearGesture_def commitAction_def Let_def pointerAt_def getElementAtPosition_def
      pointsExtent_def extentStep_def eraseAt_def clearSelectionOf_def createElement_def
      handlePaste_def handleCopy_def pastedElement_def spanRect_def moveOne_def



section \<open>Claims about the history stack\<close>

text \<open>
  Claim C2. Start from the initial empty document and commit any list \<open>cs\<close> of
  snapshots. Undoing as many times as there were commits gives the empty document.
  After \<open>k\<close> undos, with \<open>k\<close> less than the number of commits, the document is the
  snapshot committed \<open>k\<close> places before the last, and an undo followed at once by a redo
  gives back exactly the state before the undo, its document included.
\<close>

theorem undo_all_then_redo:
  "let s = foldl setAndCommit initialState cs in
     elements ((handleUndo ^^ length cs) s) = [] \<and>
     (\<forall>k < length cs. let t = (handleUndo ^^ k) s in
        elements t = ([] # cs) ! (length cs - k) \<and>
        handleRedo (handleUndo t) = t \<and>
        elements (handleRedo (handleUndo t)) = elements t)"
proof -
  let ?s = "foldl setAndCommit initialState cs"
  have inv0: "doc_inv initialState"
    by (simp add: doc_inv_def initialState_def)
  have idx0: "historyIndex initialState = length (history initialState) - 1"
    by (simp add: initialState_def)
  have h0: "history initialState = [[]]"
    by (simp add: initialState_def)
  from commits_shape [OF inv0 idx0, of cs] h0
  have hs: "history ?s = [] # cs" and ix: "historyIndex ?s = length cs" and invs: "doc_inv ?s"
    by simp_all
  have step: "history ((handleUndo ^^ k) ?s) = [] # cs \<and>
      historyIndex ((handleUndo ^^ k) ?s) = length cs - k \<and>
      doc_inv ((handleUndo ^^ k) ?s)" if "k \<le> length cs" for k
    using undo_pow [of k ?s] that hs ix invs by simp
  have el: "elements ((handleUndo ^^ k) ?s) = ([] # cs) ! (length cs - k)" if "k \<le> length cs" for k
    using step [OF that] by (simp add: doc_inv_def)
  have all: "elements ((handleUndo ^^ length cs) ?s) = []"
    using el [of "length cs"] by simp
  have redo: "handleRedo (handleUndo ((handleUndo ^^ k) ?s)) = (handleUndo ^^ k) ?s"
    if "k < length cs" for k
  proof -
    from that step [of k] have "doc_inv ((handleUndo ^^ k) ?s)"
      and "0 < historyIndex ((handleUndo ^^ k) ?s)" by simp_all
    then show ?thesis by (rule redo_undo_id)
  qed
  show ?thesis
    unfolding Let_def using all el redo by simp
qed

theorem undo_all_then_redo_witness:
  "elements ((handleUndo ^^ 2) (foldl setAndCommit initialState
      [[ShapeElement ''a'' Rectangle 10 10 50 30 ''#000000'' 2 ''none''],
       [ShapeElement ''a'' Rectangle 10 10 50 30 ''#000000'' 2 ''none'',
        PathElement ''b'' [Point 0 0, Point 4 4] ''#000000'' 5 0 0]])) = [] \<and>
   elements (foldl setAndCommit initialState
      [[ShapeElement ''a'' Rectangle 10 10 50 30 ''#000000'' 2 ''none''],
       [ShapeElement ''a'' Rectangle 10 10 50 30 ''#000000'' 2 ''none'',
        PathElement ''b'' [Point 0 0, Point 4 4] ''#000000'' 5 0 0]]) =
      [ShapeElement ''a'' Rectangle 10 10 50 30 ''#000000'' 2 ''none'',
       PathElement ''b'' [Point 0 0, Point 4 4] ''#000000'' 5 0 0] \<and>
   handleRedo (handleUndo (foldl setAndCommit initialState
      [[ShapeElement ''a'' Rectangle 10 10 50 30 ''#000000'' 2 ''none''],
       [ShapeElement ''a'' Rectangle 10 10 50 30 ''#000000'' 2 ''none'',
        PathElement ''b'' [Point 0 0, Point 4 4] ''#000000'' 5 0 0]])) =
     foldl setAndCommit initialState
      [[ShapeElement ''a'' Rectangle 10 10 50 30 ''#000000'' 2 ''none''],
       [ShapeElement ''a'' Rectangle 10 10 50 30 ''#000000'' 2 ''none'',
        PathElement ''b'' [Point 0 0, Point 4 4] ''#000000'' 5 0 0]]"
  (is "elements ((handleUndo ^^ 2) ?S) = [] \<and> elements ?S = ?E \<and> handleRedo (handleUndo ?S) = ?S")
proof -
  note th = undo_all_then_redo
    [of "[[ShapeElement ''a'' Rectangle 10 10 50 30 ''#000000'' 2 ''none''],
       [ShapeElement ''a'' Rectangle 10 10 50 30 ''#000000'' 2 ''none'',
        PathElement ''b'' [Point 0 0, Point 4 4] ''#000000'' 5 0 0]]", unfolded Let_def]
  from th have a: "elements ((handleUndo ^^ 2) ?S) = []"
    by (simp add: numeral_2_eq_2)
  from th have "elements ((handleUndo ^^ 0) ?S) = ?E \<and>
      handleRedo (handleUndo ((handleUndo ^^ 0) ?S)) = (handleUndo ^^ 0) ?S"
    by (auto simp del: funpow.simps foldl.simps)
  then have b: "elements ?S = ?E" and c: "handleRedo (handleUndo ?S) = ?S"
    by simp_all
  from a b c show ?thesis by blast
qed

text \<open>
  Claim C3. A commit keeps the entries up to the cursor, appends the snapshot and puts
  the cursor on the new last entry, so no redo is available after it. After an undo
  from cursor \<open>i\<close> the commit keeps the first \<open>i\<close> entries only: the undone snapshot and
  all entries behind it are gone, and the cursor is the last index.
\<close>

theorem commit_truncates_history:
  fixes s t :: "'a Doc_scheme"
  shows "history (commitAction snap s) = take (historyIndex s + 1) (history s) @ [snap] \<and>
   historyIndex (commitAction snap s) = length (history (commitAction snap s)) - 1 \<and>
   \<not> canRedo (commitAction snap s) \<and>
   handleRedo (commitAction snap s) = commitAction snap s \<and>
   (doc_inv t \<and> 0 < historyIndex t \<longrightarrow>
      history (commitAction snap (handleUndo t)) = take (historyIndex t) (history t) @ [snap] \<and>
      length (history (commitAction snap (handleUndo t))) = historyIndex t + 1 \<and>
      historyIndex (commitAction snap (handleUndo t)) = historyIndex t \<and>
      \<not> canRedo (commitAction snap (handleUndo t)))"
proof -
  have a: "history (commitAction snap s) = take (historyIndex s + 1) (history s) @ [snap]" for s :: "'a Doc_scheme"
    by (simp add: commitAction_def Let_def)
  have b: "historyIndex (commitAction snap s) = length (history (commitAction snap s)) - 1" for s :: "'a Doc_scheme"
    by (simp add: commitAction_def Let_def)
  have c: "\<not> canRedo (commitAction snap s)" for s :: "'a Doc_scheme"
    using b [of s] by (simp add: canRedo_def)
  have d: "handleRedo (commitAction snap s) = commitAction snap s"
    using c [of s] by (simp add: handleRedo_def canRedo_def)
  have e: "history (commitAction snap (handleUndo t)) = take (historyIndex t) (history t) @ [snap] \<and>
      length (history (commitAction snap (handleUndo t))) = historyIndex t + 1 \<and>
      historyIndex (commitAction snap (handleUndo t)) = historyIndex t"
    if "doc_inv t" "0 < historyIndex t"
  proof -
    from undo_step [OF that]
    have u: "history (handleUndo t) = history t" "historyIndex (handleUndo t) = historyIndex t - 1"
      by simp_all
    from that have lt: "historyIndex t < length (history t)" by (simp add: doc_inv_def)
    from that(2) have eq: "historyIndex t - 1 + 1 = historyIndex t" by simp
    have h: "history (commitAction snap (handleUndo t)) = take (historyIndex t) (history t) @ [snap]"
      using a [of "handleUndo t"] u eq by simp
    moreover from h lt have "length (history (commitAction snap (handleUndo t))) = historyIndex t + 1"
      by simp
    ultimately show ?thesis using b [of "handleUndo t"] by simp
  qed
  show ?thesis using a b c d e by blast
qed


theorem commit_truncates_history_witness:
  "doc_inv (foldl setAndCommit initialDoc
      [[ShapeElement ''a'' Rectangle 10 10 50 30 ''#000000'' 2 ''none''], []]) \<and>
   0 < historyIndex (foldl setAndCommit initialDoc
      [[ShapeElement ''a'' Rectangle 10 10 50 30 ''#000000'' 2 ''none''], []]) \<and>
   history (commitAction [PathElement ''b'' [Point 0 0, Point 4 4] ''#000000'' 5 0 0]
      (handleUndo (foldl setAndCommit initialDoc
        [[ShapeElement ''a'' Rectangle 10 10 50 30 ''#000000'' 2 ''none''], []]))) =
     [[], [ShapeElement ''a'' Rectangle 10 10 50 30 ''#000000'' 2 ''none''],
      [PathElement ''b'' [Point 0 0, Point 4 4] ''#000000'' 5 0 0]] \<and>
   \<not> canRedo (commitAction [PathElement ''b'' [Point 0 0, Point 4 4] ''#000000'' 5 0 0]
      (handleUndo (foldl setAndCommit initialDoc
        [[ShapeElement ''a'' Rectangle 10 10 50 30 ''#000000'' 2 ''none''], []])))"
  (is "doc_inv ?T \<and> 0 < historyIndex ?T \<and> history (commitAction ?R (handleUndo ?T)) = ?H \<and> _")
proof -
  have t: "history ?T = [[], [ShapeElement ''a'' Rectangle 10 10 50 30 ''#000000'' 2 ''none''], []]"
      "historyIndex ?T = 2" "elements ?T = []"
    by (simp_all add: setAndCommit_def commitAction_def initialDoc_def Let_def)
  have inv: "doc_inv ?T" and pos: "0 < historyIndex ?T"
    using t by (simp_all add: doc_inv_def)
  from commit_truncates_history [of ?R ?T ?T] inv pos
  have "history (commitAction ?R (handleUndo ?T)) = take (historyIndex ?T) (history ?T) @ [?R]"
    and nr: "\<not> canRedo (commitAction ?R (handleUndo ?T))"
    by blast+
  then have "history (commitAction ?R (handleUndo ?T)) = ?H"
    using t by simp
  with inv pos nr show ?thesis by blast
qed
section \<open>Claims about hit-testing\<close>

text \<open>
  Claim C4, as amended. The hit test returns the element of highest index among those
  that contain the point, and none exactly when no element contains it, where an image
  or a shape contains the point when the point lies in its rectangle, bounds included,
  and a path contains it when the path has at least two points and the point lies in
  the axis-aligned bounding box of its points. A path of fewer than two points is
  passed over.
\<close>

theorem hitTest_topmost:
  "(getElementAtPosition x y els = None \<longleftrightarrow>
      (\<forall>e \<in> set els. \<not> (spec_contains x y e \<and> \<not> short_path e))) \<and>
   (\<forall>e. getElementAtPosition x y els = Some e \<longrightarrow>
      (\<exists>i<length els. els ! i = e \<and> spec_contains x y e \<and> \<not> short_path e \<and>
         (\<forall>j<length els. i < j \<longrightarrow>
            \<not> (spec_contains x y (els ! j) \<and> \<not> short_path (els ! j)))))"
proof -
  have none: "getElementAtPosition x y els = None \<longleftrightarrow>
      (\<forall>e \<in> set els. \<not> (spec_contains x y e \<and> \<not> short_path e))"
    unfolding getElementAtPosition_def scanDown_None hitElement_spec
    by (metis in_set_conv_nth)
  have some: "\<exists>i<length els. els ! i = e \<and> spec_contains x y e \<and> \<not> short_path e \<and>
         (\<forall>j<length els. i < j \<longrightarrow>
            \<not> (spec_contains x y (els ! j) \<and> \<not> short_path (els ! j)))"
    if "getElementAtPosition x y els = Some e" for e
    using scanDown_Some [of x y els "length els" e] that
    unfolding getElementAtPosition_def hitElement_spec by simp
  from none some show ?thesis by blast
qed

text \<open>
  Claim C4 as stated fails on a path of one point: the point (5, 5) lies in the bounds of
  both elements, the path is the topmost of the two, and the hit test returns the shape
  below it.
\<close>

theorem hitTest_single_point_path:
  "spec_contains 5 5 (ShapeElement ''s'' Rectangle 0 0 10 10 ''#000000'' 2 ''none'') \<and>
   spec_contains 5 5 (PathElement ''p'' [Point 5 5] ''#000000'' 5 0 0) \<and>
   getElementAtPosition 5 5
     [ShapeElement ''s'' Rectangle 0 0 10 10 ''#000000'' 2 ''none'',
      PathElement ''p'' [Point 5 5] ''#000000'' 5 0 0] =
     Some (ShapeElement ''s'' Rectangle 0 0 10 10 ''#000000'' 2 ''none'')"
  by (simp add: getElementAtPosition_def)


theorem hitTest_topmost_witness:
  "getElementAtPosition 5 5
     [ShapeElement ''s'' Rectangle 0 0 10 10 ''#000000'' 2 ''none'',
      PathElement ''p'' [Point 2 2, Point 8 8] ''#000000'' 5 0 0] =
     Some (PathElement ''p'' [Point 2 2, Point 8 8] ''#000000'' 5 0 0) \<and>
   spec_contains 5 5 (PathElement ''p'' [Point 2 2, Point 8 8] ''#000000'' 5 0 0) \<and>
   spec_contains 5 5 (ShapeElement ''s'' Rectangle 0 0 10 10 ''#000000'' 2 ''none'') \<and>
   \<not> short_path (PathElement ''p'' [Point 2 2, Point 8 8] ''#000000'' 5 0 0)"
  (is "getElementAtPosition 5 5 ?els = Some ?P \<and> _")
proof -
  have r: "getElementAtPosition 5 5 ?els = Some ?P"
    by (simp add: getElementAtPosition_def pointsExtent_def extentStep_def)
  from hitTest_topmost [of 5 5 ?els] r
  have "\<exists>i<length ?els. ?els ! i = ?P \<and> spec_contains 5 5 ?P \<and> \<not> short_path ?P \<and>
         (\<forall>j<length ?els. i < j \<longrightarrow>
            \<not> (spec_contains 5 5 (?els ! j) \<and> \<not> short_path (?els ! j)))"
    by blast
  then have "spec_contains 5 5 ?P \<and> \<not> short_path ?P" by blast
  with r show ?thesis by simp
qed



section \<open>Claims about selection, paste, resize, erase and the generation request\<close>

text \<open>
  Claim C5. The code's test of an element against a selection box is the membership
  rule: a path is in the box when one of its points lies within the box, bounds
  included; an image or a shape is in the box when its rectangle overlaps the box
  strictly. On pointer-up in a rubber-band gesture the selected ids are those of exactly
  the elements in the box, in document order, and the box is cleared. For the box
  (0, 0, 100, 100) the shapes at (10, 10, 5, 5) and (95, 95, 20, 20) are selected and the
  shape at (200, 200, 10, 10) is not.
\<close>

theorem rubber_band_selection:
  "isElementInSelectionBox e b = spec_in_box e b \<and>
   (\<not> (croppingState s \<noteq> None \<and> cropStartInfo s \<noteq> None) \<and>
    action s = Drawing \<and> activeTool s = Select \<and> selectionBox s = Some b \<longrightarrow>
      selectedElementIds (handleMouseUp s) =
        map el_id (filter (\<lambda>el. spec_in_box el b) (elements s)) \<and>
      selectionBox (handleMouseUp s) = None) \<and>
   selectedElementIds (handleMouseUp
     (initialState\<lparr> action := Drawing, selectionBox := Some (Rect 0 0 100 100),
        elements :=
          [ShapeElement ''a'' Rectangle 10 10 5 5 ''#000000'' 2 ''none'',
           ShapeElement ''b'' Rectangle 95 95 20 20 ''#000000'' 2 ''none'',
           ShapeElement ''c'' Rectangle 200 200 10 10 ''#000000'' 2 ''none''] \<rparr>)) =
     [''a'', ''b'']"
proof -
  have gen: "selectedElementIds (handleMouseUp s) =
        map el_id (filter (\<lambda>el. spec_in_box el b) (elements s)) \<and>
      selectionBox (handleMouseUp s) = None"
    if "\<not> (croppingState s \<noteq> None \<and> cropStartInfo s \<noteq> None)"
      "action s = Drawing" "activeTool s = Select" "selectionBox s = Some b" for s b
    unfolding mouseUp_rubber_band [OF that]
    by (simp add: clearGesture_def in_box_spec)
  let ?s = "initialState\<lparr> action := Drawing, selectionBox := Some (Rect 0 0 100 100),
        elements :=
          [ShapeElement ''a'' Rectangle 10 10 5 5 ''#000000'' 2 ''none'',
           ShapeElement ''b'' Rectangle 95 95 20 20 ''#000000'' 2 ''none'',
           ShapeElement ''c'' Rectangle 200 200 10 10 ''#000000'' 2 ''none''] \<rparr>"
  have "selectedElementIds (handleMouseUp ?s) =
        map el_id (filter (\<lambda>el. spec_in_box el (Rect 0 0 100 100)) (elements ?s))"
    using gen [of ?s "Rect 0 0 100 100"] by (simp add: initialState_def)
  also have "\<dots> = [''a'', ''b'']"
    by (simp add: spec_in_box_def)
  finally have ex: "selectedElementIds (handleMouseUp ?s) = [''a'', ''b'']" .
  from in_box_spec gen ex show ?thesis by blast
qed

theorem rubber_band_selection_witness:
  "handleMouseMove (MouseEvent 100 100 False None (Some (Point 0 0)))
     (handleMouseDown ''n'' (MouseEvent 0 0 False None (Some (Point 0 0)))
        (initialState\<lparr> elements :=
          [ShapeElement ''a'' Rectangle 10 10 5 5 ''#000000'' 2 ''none'',
           PathElement ''p'' [Point 150 150, Point 100 50] ''#000000'' 5 0 0,
           ShapeElement ''c'' Rectangle 200 200 10 10 ''#000000'' 2 ''none''] \<rparr>)) =
   Inr (initialState\<lparr> elements :=
          [ShapeElement ''a'' Rectangle 10 10 5 5 ''#000000'' 2 ''none'',
           PathElement ''p'' [Point 150 150, Point 100 50] ''#000000'' 5 0 0,
           ShapeElement ''c'' Rectangle 200 200 10 10 ''#000000'' 2 ''none''],
         action := Drawing, selectionBox := Some (Rect 0 0 100 100) \<rparr>) \<and>
   selectedElementIds (handleMouseUp
     (initialState\<lparr> elements :=
          [ShapeElement ''a'' Rectangle 10 10 5 5 ''#000000'' 2 ''none'',
           PathElement ''p'' [Point 150 150, Point 100 50] ''#000000'' 5 0 0,
           ShapeElement ''c'' Rectangle 200 200 10 10 ''#000000'' 2 ''none''],
         action := Drawing, selectionBox := Some (Rect 0 0 100 100) \<rparr>)) = [''a'', ''p'']"
  (is "_ = Inr ?t \<and> _")
proof -
  have h: "\<not> (croppingState ?t \<noteq> None \<and> cropStartInfo ?t \<noteq> None) \<and>
    action ?t = Drawing \<and> activeTool ?t = Select \<and> selectionBox ?t = Some (Rect 0 0 100 100)"
    by (simp add: initialState_def)
  from rubber_band_selection [of _ "Rect 0 0 100 100" ?t] h
  have "selectedElementIds (handleMouseUp ?t) =
        map el_id (filter (\<lambda>el. spec_in_box el (Rect 0 0 100 100)) (elements ?t))"
    by blast
  also have "\<dots> = [''a'', ''p'']"
    by (simp add: spec_in_box_def)
  finally show ?thesis using gesture_box by simp
qed

text \<open>
  Claim C6, as amended. With an element \<open>c\<close> on the clipboard, paste appends one
  element to the document and commits the new document; the clipboard is left as it
  was. The new element has the id that \<open>generateId\<close> returned, and putting back the id
  and the coordinates of \<open>c\<close> gives \<open>c\<close> itself, so every other field is unchanged. When
  \<open>c\<close> is an image or a shape, the new element's \<open>x\<close> and \<open>y\<close> are those of \<open>c\<close> plus 10
  and it occupies the rectangle of \<open>c\<close> moved by (10, 10): its bounds are the moved
  bounds and it is hit at exactly the moved points. A second paste appends a second such
  element at the same offset from \<open>c\<close>, at (15, 15) when \<open>c\<close> is at (5, 5). The two new
  ids are equal exactly when both pastes read the same clock value and drew the same
  nine random characters.
\<close>

theorem paste_appends_offset_copy:
  "clipboard s = Some c \<longrightarrow>
     elements (handlePaste (generateId now rnd) s) =
       elements s @ [pastedElement (generateId now rnd) c] \<and>
     history (handlePaste (generateId now rnd) s) =
       take (historyIndex s + 1) (history s) @
         [elements s @ [pastedElement (generateId now rnd) c]] \<and>
     clipboard (handlePaste (generateId now rnd) s) = Some c \<and>
     el_id (pastedElement (generateId now rnd) c) = generateId now rnd \<and>
     with_xy (el_x c) (el_y c) (with_id (el_id c) (pastedElement (generateId now rnd) c)) = c \<and>
     (\<not> is_path c \<longrightarrow>
        el_x (pastedElement (generateId now rnd) c) = el_x c + 10 \<and>
        el_y (pastedElement (generateId now rnd) c) = el_y c + 10 \<and>
        getElementBounds c = Rect (el_x c) (el_y c) (el_width c) (el_height c) \<and>
        getElementBounds (pastedElement (generateId now rnd) c) =
          Rect (el_x c + 10) (el_y c + 10) (el_width c) (el_height c) \<and>
        (\<forall>x y. hitElement (x + 10) (y + 10) (pastedElement (generateId now rnd) c) =
                hitElement x y c)) \<and>
     elements (handlePaste (generateId t2 r2) (handlePaste (generateId t1 r1) s)) =
       elements s @ [pastedElement (generateId t1 r1) c, pastedElement (generateId t2 r2) c] \<and>
     (\<not> is_path c \<and> el_x c = 5 \<and> el_y c = 5 \<longrightarrow>
        el_x (pastedElement (generateId t1 r1) c) = 15 \<and>
        el_y (pastedElement (generateId t1 r1) c) = 15 \<and>
        el_x (pastedElement (generateId t2 r2) c) = 15 \<and>
        el_y (pastedElement (generateId t2 r2) c) = 15) \<and>
     (el_id (pastedElement (generateId t1 r1) c) = el_id (pastedElement (generateId t2 r2) c)
        \<longleftrightarrow> t1 = t2 \<and> take 9 (drop 2 r1) = take 9 (drop 2 r2))"
proof
  assume c: "clipboard s = Some c"
  let ?p = "pastedElement (generateId now rnd) c"
  let ?p1 = "pastedElement (generateId t1 r1) c"
  let ?p2 = "pastedElement (generateId t2 r2) c"
  have a: "elements (handlePaste (generateId now rnd) s) = elements s @ [?p]"
    and b: "clipboard (handlePaste (generateId now rnd) s) = Some c"
    using paste_keeps [OF c] by simp_all
  have h: "history (handlePaste (generateId now rnd) s) =
       take (historyIndex s + 1) (history s) @ [elements s @ [?p]]"
    by (simp add: paste_state [OF c] commitAction_def Let_def)
  have f: "el_id ?p = generateId now rnd"
    and g: "with_xy (el_x c) (el_y c) (with_id (el_id c) ?p) = c"
    using pasted_fields [of "generateId now rnd" c] by simp_all
  have r: "\<not> is_path c \<longrightarrow>
        el_x ?p = el_x c + 10 \<and> el_y ?p = el_y c + 10 \<and>
        getElementBounds c = Rect (el_x c) (el_y c) (el_width c) (el_height c) \<and>
        getElementBounds ?p = Rect (el_x c + 10) (el_y c + 10) (el_width c) (el_height c) \<and>
        (\<forall>x y. hitElement (x + 10) (y + 10) ?p = hitElement x y c)"
    using pasted_rect [of c "generateId now rnd"] by blast
  from paste_keeps [OF c, of "generateId t1 r1"]
  have one: "elements (handlePaste (generateId t1 r1) s) = elements s @ [?p1]"
    and clip: "clipboard (handlePaste (generateId t1 r1) s) = Some c" by simp_all
  from paste_keeps [OF clip, of "generateId t2 r2"] one
  have two: "elements (handlePaste (generateId t2 r2) (handlePaste (generateId t1 r1) s)) =
       elements s @ [?p1, ?p2]" by simp
  have at: "\<not> is_path c \<and> el_x c = 5 \<and> el_y c = 5 \<longrightarrow>
        el_x ?p1 = 15 \<and> el_y ?p1 = 15 \<and> el_x ?p2 = 15 \<and> el_y ?p2 = 15"
    using pasted_fields [of "generateId t1 r1" c] pasted_fields [of "generateId t2 r2" c]
    by simp
  have ids: "el_id ?p1 = el_id ?p2 \<longleftrightarrow> t1 = t2 \<and> take 9 (drop 2 r1) = take 9 (drop 2 r2)"
    using pasted_fields [of "generateId t1 r1" c] pasted_fields [of "generateId t2 r2" c]
    by (simp add: generateId_eq)
  from a h b f g r two at ids
  show "elements (handlePaste (generateId now rnd) s) = elements s @ [?p] \<and>
     history (handlePaste (generateId now rnd) s) =
       take (historyIndex s + 1) (history s) @ [elements s @ [?p]] \<and>
     clipboard (handlePaste (generateId now rnd) s) = Some c \<and>
     el_id ?p = generateId now rnd \<and>
     with_xy (el_x c) (el_y c) (with_id (el_id c) ?p) = c \<and>
     (\<not> is_path c \<longrightarrow>
        el_x ?p = el_x c + 10 \<and> el_y ?p = el_y c + 10 \<and>
        getElementBounds c = Rect (el_x c) (el_y c) (el_width c) (el_height c) \<and>
        getElementBounds ?p = Rect (el_x c + 10) (el_y c + 10) (el_width c) (el_height c) \<and>
        (\<forall>x y. hitElement (x + 10) (y + 10) ?p = hitElement x y c)) \<and>
     elements (handlePaste (generateId t2 r2) (handlePaste (generateId t1 r1) s)) =
       elements s @ [?p1, ?p2] \<and>
     (\<not> is_path c \<and> el_x c = 5 \<and> el_y c = 5 \<longrightarrow>
        el_x ?p1 = 15 \<and> el_y ?p1 = 15 \<and> el_x ?p2 = 15 \<and> el_y ?p2 = 15) \<and>
     (el_id ?p1 = el_id ?p2 \<longleftrightarrow> t1 = t2 \<and> take 9 (drop 2 r1) = take 9 (drop 2 r2))"
    by blast
qed

text \<open>
  Claim C6 as stated fails in two ways. A path on the clipboard is pasted with the same
  points, so its bounds are those of the original and its position is not moved. And
  two pastes in the same millisecond whose random numbers agree on the nine characters
  kept give two elements with one id.
\<close>

theorem paste_path_and_id_collision:
  "getElementBounds (PathElement ''p'' [Point 1 1, Point 5 5] ''#000000'' 5 0 0) = Rect 1 1 4 4 \<and>
   elements (handlePaste (generateId 1700000000000 ''0.4fzyo82mvyr'')
     (initialState\<lparr>
        elements := [PathElement ''p'' [Point 1 1, Point 5 5] ''#000000'' 5 0 0],
        clipboard := Some (PathElement ''p'' [Point 1 1, Point 5 5] ''#000000'' 5 0 0) \<rparr>)) =
     [PathElement ''p'' [Point 1 1, Point 5 5] ''#000000'' 5 0 0,
      PathElement ''id_1700000000000_4fzyo82mv'' [Point 1 1, Point 5 5] ''#000000'' 5 10 10] \<and>
   getElementBounds
     (PathElement ''id_1700000000000_4fzyo82mv'' [Point 1 1, Point 5 5] ''#000000'' 5 10 10) =
     Rect 1 1 4 4 \<and>
   map el_id (elements
     (handlePaste (generateId 1700000000000 ''0.4fzyo82mvzz'')
       (handlePaste (generateId 1700000000000 ''0.4fzyo82mvyr'')
         (initialState\<lparr> clipboard :=
            Some (ShapeElement ''a'' Circle 5 5 40 30 ''#ff0000'' 3 ''#00ff00'') \<rparr>)))) =
     [''id_1700000000000_4fzyo82mv'', ''id_1700000000000_4fzyo82mv'']"
  by (simp add: handlePaste_def pastedElement_def commitAction_def initialState_def Let_def
      generateId_def decimal.simps [of "numeral k" for k] decimal.simps [of "Suc 0"]
      digits10_def pointsExtent_def extentStep_def)

theorem paste_appends_offset_copy_witness:
  "clipboard (initialState\<lparr> clipboard :=
       Some (ShapeElement ''a'' Circle 5 5 40 30 ''#ff0000'' 3 ''#00ff00'') \<rparr>) =
     Some (ShapeElement ''a'' Circle 5 5 40 30 ''#ff0000'' 3 ''#00ff00'') \<and>
   \<not> is_path (ShapeElement ''a'' Circle 5 5 40 30 ''#ff0000'' 3 ''#00ff00'') \<and>
   el_x (ShapeElement ''a'' Circle 5 5 40 30 ''#ff0000'' 3 ''#00ff00'') = 5 \<and>
   el_y (ShapeElement ''a'' Circle 5 5 40 30 ''#ff0000'' 3 ''#00ff00'') = 5 \<and>
   el_x (pastedElement (generateId 1700000000000 ''0.4fzyo82mvyr'')
     (ShapeElement ''a'' Circle 5 5 40 30 ''#ff0000'' 3 ''#00ff00'')) = 15 \<and>
   el_y (pastedElement (generateId 1700000000250 ''0.9x1c7k3qd2p'')
     (ShapeElement ''a'' Circle 5 5 40 30 ''#ff0000'' 3 ''#00ff00'')) = 15 \<and>
   getElementBounds (pastedElement (generateId 1700000000000 ''0.4fzyo82mvyr'')
     (ShapeElement ''a'' Circle 5 5 40 30 ''#ff0000'' 3 ''#00ff00'')) = Rect 15 15 40 30 \<and>
   el_id (pastedElement (generateId 1700000000000 ''0.4fzyo82mvyr'')
     (ShapeElement ''a'' Circle 5 5 40 30 ''#ff0000'' 3 ''#00ff00'')) \<noteq>
   el_id (pastedElement (generateId 1700000000250 ''0.9x1c7k3qd2p'')
     (ShapeElement ''a'' Circle 5 5 40 30 ''#ff0000'' 3 ''#00ff00'')) \<and>
   elements (handlePaste (generateId 1700000000250 ''0.9x1c7k3qd2p'')
     (handlePaste (generateId 1700000000000 ''0.4fzyo82mvyr'')
       (initialState\<lparr> clipboard :=
          Some (ShapeElement ''a'' Circle 5 5 40 30 ''#ff0000'' 3 ''#00ff00'') \<rparr>))) =
     [ShapeElement ''id_1700000000000_4fzyo82mv'' Circle 15 15 40 30 ''#ff0000'' 3 ''#00ff00'',
      ShapeElement ''id_1700000000250_9x1c7k3qd'' Circle 15 15 40 30 ''#ff0000'' 3 ''#00ff00'']"
  (is "clipboard ?s = Some ?c \<and> _")
proof -
  let ?i1 = "generateId 1700000000000 ''0.4fzyo82mvyr''"
  let ?i2 = "generateId 1700000000250 ''0.9x1c7k3qd2p''"
  have c: "clipboard ?s = Some ?c" and np: "\<not> is_path ?c"
    and xy: "el_x ?c = 5 \<and> el_y ?c = 5"
    and ne: "\<not> ((1700000000000::nat) = 1700000000250 \<and>
        take 9 (drop 2 ''0.4fzyo82mvyr'') = take 9 (drop 2 ''0.9x1c7k3qd2p''))"
    by simp_all
  note th = paste_appends_offset_copy
    [of ?s ?c 1700000000000 "''0.4fzyo82mvyr''" 1700000000250 "''0.9x1c7k3qd2p''"
        1700000000000 "''0.4fzyo82mvyr''", rule_format, OF c]
  from th have els: "elements (handlePaste ?i2 (handlePaste ?i1 ?s)) =
       elements ?s @ [pastedElement ?i1 ?c, pastedElement ?i2 ?c]"
    by blast
  from th np xy have at15: "el_x (pastedElement ?i1 ?c) = 15 \<and> el_y (pastedElement ?i2 ?c) = 15"
    by blast
  from th np have "getElementBounds (pastedElement ?i1 ?c) =
      Rect (el_x ?c + 10) (el_y ?c + 10) (el_width ?c) (el_height ?c)"
    by blast
  then have bounds: "getElementBounds (pastedElement ?i1 ?c) = Rect 15 15 40 30"
    by simp
  from th ne have ids: "el_id (pastedElement ?i1 ?c) \<noteq> el_id (pastedElement ?i2 ?c)"
    by blast
  from els have "elements (handlePaste ?i2 (handlePaste ?i1 ?s)) =
     [ShapeElement ''id_1700000000000_4fzyo82mv'' Circle 15 15 40 30 ''#ff0000'' 3 ''#00ff00'',
      ShapeElement ''id_1700000000250_9x1c7k3qd'' Circle 15 15 40 30 ''#ff0000'' 3 ''#00ff00'']"
    by (simp add: pastedElement_def initialState_def generateId_def
        decimal.simps [of "numeral k" for k] decimal.simps [of "Suc 0"] digits10_def)
  with c np xy at15 bounds ids show ?thesis by blast
qed

text \<open>
  Claim C1 fails on the code. A shape of width 100 and height 20 is selected; the
  pointer goes down on the middle-right handle with the shift key held and moves 95
  units to the left. The width 5 is raised to the floor 10, and the aspect lock then
  sets the height to 10 / 5 = 2, which nothing raises again: the document after the
  gesture, and the snapshot committed on pointer-up, hold a shape of height 2. Without
  the shift key both sizes are at least 10 (\<open>resize_floor_without_shift\<close>).
\<close>

theorem resize_shift_below_floor:
  "map_sum id (\<lambda>t. (elements t, history t))
     (run [MouseDown ''n'' (MouseEvent 100 10 True (Some ''mr'') (Some (Point 0 0))),
           MouseMove (MouseEvent 5 10 True None (Some (Point 0 0))),
           MouseUp]
        (initialState\<lparr>
           elements := [ShapeElement ''s'' Rectangle 0 0 100 20 ''#000000'' 2 ''none''],
           selectedElement := Some (ShapeElement ''s'' Rectangle 0 0 100 20 ''#000000'' 2 ''none''),
           selectedElementIds := [''s''] \<rparr>)) =
     Inr ([ShapeElement ''s'' Rectangle 0 0 10 2 ''#000000'' 2 ''none''],
          [[], [ShapeElement ''s'' Rectangle 0 0 10 2 ''#000000'' 2 ''none'']])"
  by (simp add: ui_defs)

text \<open>
  Claim C7 fails on the code. A path is drawn with the draw tool, so its \<open>x\<close> and \<open>y\<close>
  are 0; it is clicked with the select tool and copied. Paste then appends a path with
  the same points whose \<open>x\<close> and \<open>y\<close> are 10.
\<close>

theorem paste_path_sets_xy:
  "map_sum id elements
     (run [SetActiveTool Draw, MouseDown ''p'' (pointerAt 1 1), MouseMove (pointerAt 5 5), MouseUp,
           SetActiveTool Select, MouseDown ''n'' (pointerAt 3 3), MouseUp,
           Copy, Paste ''q''] initialState) =
     Inr [PathElement ''p'' [Point 1 1, Point 5 5] ''#000000'' 5 0 0,
          PathElement ''q'' [Point 1 1, Point 5 5] ''#000000'' 5 10 10]"
  by (simp add: ui_defs)

text \<open>
  Claim C8 fails on the code. Three overlapping paths are in the document and in its
  one committed snapshot. An erase gesture that goes down on the paths and crosses
  them deletes all three and leaves two new history entries, one committed by
  pointer-down and one by pointer-up. The same gesture started beside the paths leaves
  one new entry, since pointer-move deletes without committing.
\<close>

theorem erase_gesture_commits_twice:
  "map_sum id (\<lambda>t. (elements t, history t))
     (run [SetActiveTool Erase,
           MouseDown ''n'' (pointerAt 5 5), MouseMove (pointerAt 6 5), MouseMove (pointerAt 4 5),
           MouseUp]
        (initialState\<lparr>
           elements := [PathElement ''a'' [Point 0 0, Point 10 10] ''#000000'' 5 0 0,
                        PathElement ''b'' [Point 0 10, Point 10 0] ''#000000'' 5 0 0,
                        PathElement ''c'' [Point 0 4, Point 10 6] ''#000000'' 5 0 0],
           history := [[], [PathElement ''a'' [Point 0 0, Point 10 10] ''#000000'' 5 0 0,
                        PathElement ''b'' [Point 0 10, Point 10 0] ''#000000'' 5 0 0,
                        PathElement ''c'' [Point 0 4, Point 10 6] ''#000000'' 5 0 0]],
           historyIndex := 1 \<rparr>)) =
     Inr ([],
          [[], [PathElement ''a'' [Point 0 0, Point 10 10] ''#000000'' 5 0 0,
                PathElement ''b'' [Point 0 10, Point 10 0] ''#000000'' 5 0 0,
                PathElement ''c'' [Point 0 4, Point 10 6] ''#000000'' 5 0 0],
           [PathElement ''a'' [Point 0 0, Point 10 10] ''#000000'' 5 0 0,
            PathElement ''b'' [Point 0 10, Point 10 0] ''#000000'' 5 0 0],
           []]) \<and>
   map_sum id (\<lambda>t. (elements t, history t))
     (run [SetActiveTool Erase,
           MouseDown ''n'' (pointerAt 50 50), MouseMove (pointerAt 5 5), MouseMove (pointerAt 6 5),
           MouseMove (pointerAt 4 5), MouseUp]
        (initialState\<lparr>
           elements := [PathElement ''a'' [Point 0 0, Point 10 10] ''#000000'' 5 0 0,
                        PathElement ''b'' [Point 0 10, Point 10 0] ''#000000'' 5 0 0,
                        PathElement ''c'' [Point 0 4, Point 10 6] ''#000000'' 5 0 0],
           history := [[], [PathElement ''a'' [Point 0 0, Point 10 10] ''#000000'' 5 0 0,
                        PathElement ''b'' [Point 0 10, Point 10 0] ''#000000'' 5 0 0,
                        PathElement ''c'' [Point 0 4, Point 10 6] ''#000000'' 5 0 0]],
           historyIndex := 1 \<rparr>)) =
     Inr ([],
          [[], [PathElement ''a'' [Point 0 0, Point 10 10] ''#000000'' 5 0 0,
                PathElement ''b'' [Point 0 10, Point 10 0] ''#000000'' 5 0 0,
                PathElement ''c'' [Point 0 4, Point 10 6] ''#000000'' 5 0 0],
           []])"
  by (simp add: ui_defs)

text \<open>
  Claim C9 fails on the code. Two images are selected, the first inline and the second
  referenced by a URL that fails to load. The rejection of the second conversion rejects
  the whole batch: the error message is shown and the service is not called. The blank
  image is substituted only when the conversion throws before its promise is returned.
\<close>

theorem failed_load_aborts_request:
  "handleGenerateArt
     (Browser (\<lambda>url. if url = ''http://h/b.png'' then LoadFailed else Loaded ''data:x'')
        (Some ''data:blank''))
     ''a cat''
     [ImageElement ''a'' 0 0 64 64 ''data:image/png;base64,AAAA'' ''image/png'',
      ImageElement ''b'' 0 0 64 64 ''http://h/b.png'' ''image/png'']
     [''a'', ''b''] =
     ErrorShown ''Failed to generate image: Failed to load image: http://h/b.png'' \<and>
   handleGenerateArt
     (Browser (\<lambda>url. if url = ''http://h/b.png'' then SyncThrow ''boom'' else Loaded ''data:x'')
        (Some ''data:blank''))
     ''a cat''
     [ImageElement ''a'' 0 0 64 64 ''data:image/png;base64,AAAA'' ''image/png'',
      ImageElement ''b'' 0 0 64 64 ''http://h/b.png'' ''image/png'']
     [''a'', ''b''] =
     ServiceCalled
       [ImageInput ''data:image/png;base64,AAAA'' ''image/png'',
        ImageInput ''data:blank'' ''image/png'']
       ''a cat''"
  by (simp add: handleGenerateArt_def convertImage_def trim_def isSpace_def startsWith_def orPng_def)


end
